theory Spec2Isabelle
  imports Main "HOL-Library.Sublist" "HOL-Library.Signed_Division"
begin

section \<open>Go values used by the viewer\<close>

text \<open>
  A Go \<open>string\<close> is a sequence of bytes: \<^typ>\<open>string\<close>. A Go \<open>int\<close> is modelled by
  \<^typ>\<open>int\<close>: every integer the modelled functions compute is an offset into, or the
  length of, a string or slice held in memory, hence far below \<open>2^63\<close>. An \<open>error\<close> value is
  the text its \<open>Error()\<close> method returns. A runtime panic is a value of \<open>panic\<close>.
\<close>

datatype panic = SliceBoundsOutOfRange | IndexOutOfRange

text \<open>\<open>strings.Index(s, substr)\<close>: the offset of the first occurrence, or \<open>-1\<close>.\<close>

fun Index :: "string \<Rightarrow> string \<Rightarrow> int" where
  "Index [] substr = (if substr = [] then 0 else - 1)"
| "Index (c # cs) substr =
     (if prefix substr (c # cs) then 0
      else (let i = Index cs substr in if i = - 1 then - 1 else i + 1))"

text \<open>The slice expression \<open>s[i:]\<close>, which panics unless \<open>0 \<le> i \<le> len(s)\<close>.\<close>

definition slice_from :: "string \<Rightarrow> int \<Rightarrow> panic + string" where
  "slice_from s i =
     (if 0 \<le> i \<and> i \<le> int (length s) then Inr (drop (nat i) s)
      else Inl SliceBoundsOutOfRange)"

text \<open>\<open>strings.Split(s, "\n")\<close>: the lines of \<open>s\<close>; one more than it has newlines.\<close>

fun split_lines :: "string \<Rightarrow> string \<Rightarrow> string list" where
  "split_lines [] cur = [rev cur]"
| "split_lines (c # cs) cur =
     (if c = CHR 0x0A then rev cur # split_lines cs [] else split_lines cs (c # cur))"

definition Split :: "string \<Rightarrow> string list" where
  "Split s = split_lines s []"

text \<open>\<open>strconv.Itoa\<close> and the \<open>%d\<close> verb of \<open>fmt.Sprintf\<close>.\<close>

fun digits10 :: "nat \<Rightarrow> string" where
  "digits10 n =
     (if n < 10 then [''0123456789'' ! n]
      else digits10 (n div 10) @ [''0123456789'' ! (n mod 10)])"

definition Itoa :: "int \<Rightarrow> string" where
  "Itoa i = (if i < 0 then CHR ''-'' # digits10 (nat (- i)) else digits10 (nat i))"

text \<open>
  \<open>filepath.Ext\<close>: the suffix from the last dot of the last path element, scanning from
  the end as the library does.
\<close>

fun ext_scan :: "string \<Rightarrow> string \<Rightarrow> string" where
  "ext_scan [] acc = []"
| "ext_scan (c # cs) acc =
     (if c = CHR ''/'' then [] else if c = CHR ''.'' then c # acc else ext_scan cs (c # acc))"

definition Ext :: "string \<Rightarrow> string" where
  "Ext path = ext_scan (rev path) []"

text \<open>
  The packages \<open>regexp\<close> and \<open>strings\<close> are not part of the repository. What
  \<open>performSearch\<close> calls of them is a parameter: \<open>regexp.Compile\<close> (an error text or a
  compiled expression), \<open>FindAllStringIndex(content, -1)\<close> of the compiled expression (the start and end of
  each match) and \<open>strings.ToLower\<close>.
\<close>

record 're library =
  regexp_Compile :: "string \<Rightarrow> string + 're"
  regexp_FindAllStringIndex :: "'re \<Rightarrow> string \<Rightarrow> (int \<times> int) list"
  strings_ToLower :: "string \<Rightarrow> string"

section \<open>The offset-based search: \<open>performSearch\<close>\<close>

record searchOptions =
  caseSensitive :: bool
  useRegex :: bool

text \<open>
  The \<open>for\<close> loop of the literal branch (lines 325 to 333). It has no bound of its own,
  so the model is a partial function: \<open>None\<close> is a loop that never leaves.
\<close>

partial_function (option) literal_loop ::
  "string \<Rightarrow> string \<Rightarrow> int \<Rightarrow> int list \<Rightarrow> (panic + int list) option" where
  "literal_loop content searchString pos positions =
     (case slice_from content pos of
        Inl e \<Rightarrow> Some (Inl e)
      | Inr rest \<Rightarrow>
          (if Index rest searchString = - 1 then Some (Inr positions)
           else literal_loop content searchString
                  (pos + Index rest searchString + int (length searchString))
                  (positions @ [pos + Index rest searchString])))"

declare literal_loop.simps [code]

text \<open>
  \<open>performSearch\<close> (lines 299 to 337). The error logger is the list of the lines
  written to it; the function returns the positions and the logger.
\<close>

definition performSearch ::
  "'re library \<Rightarrow> string list \<Rightarrow> string \<Rightarrow> string \<Rightarrow> searchOptions \<Rightarrow>
     (panic + int list \<times> string list) option" where
  "performSearch lib errorLogger content searchString options =
     (if useRegex options then
        (case regexp_Compile lib
                (if caseSensitive options then searchString else ''(?i)'' @ searchString) of
           Inl err \<Rightarrow> Some (Inr ([], errorLogger @ [''Invalid regex pattern: '' @ err]))
         | Inr re \<Rightarrow>
             Some (Inr (map fst (regexp_FindAllStringIndex lib re content), errorLogger)))
      else
        (case literal_loop
                (if \<not> caseSensitive options then strings_ToLower lib content else content)
                (if \<not> caseSensitive options then strings_ToLower lib searchString
                 else searchString) 0 [] of
           None \<Rightarrow> None
         | Some (Inl e) \<Rightarrow> Some (Inl e)
         | Some (Inr positions) \<Rightarrow> Some (Inr (positions, errorLogger))))"

section \<open>The application state and the interactive search\<close>

text \<open>
  A \<open>tview.TextView\<close> as far as the viewer uses it: the text given to \<open>SetText\<close>, the
  region given to \<open>Highlight\<close>, the row and column given to \<open>ScrollTo\<close>, the title.
\<close>

record TextView =
  tv_text :: string
  tv_highlight :: string
  tv_scroll :: "int \<times> int"
  tv_title :: string

datatype widget = FileList | FileContent | DebugView

text \<open>
  An entry of \<open>actionFuncs\<close> is the closure built at lines 394 to 416; it captures
  \<open>file\<close> and \<open>fileIndex\<close>.
\<close>

datatype action = OpenFile string int

text \<open>
  \<open>appState\<close>: its data fields, the widgets it points to, what \<open>app.SetFocus\<close> was last
  given, and the two package-level loggers.
\<close>

record appState =
  focus :: widget
  fileList :: "(string \<times> action) list"
  fileContent :: TextView
  debugView :: TextView
  actionFuncs :: "action list"
  isFileListFocused :: bool
  scrollOffset :: int
  activeFileIndex :: int
  layoutHorizontal :: bool
  secondFileVisible :: bool
  searchString :: string
  searchResults :: "(int \<times> int) list"
  currentSearchIndex :: int
  searchMode :: bool
  errorLogger :: "string list"
  infoLogger :: "string list"

definition cancelSearch :: "appState \<Rightarrow> appState" where
  "cancelSearch state =
     state\<lparr>searchMode := False, searchString := [], searchResults := [],
       currentSearchIndex := 0,
       fileContent := (fileContent state)\<lparr>tv_highlight := []\<rparr>,
       debugView := (debugView state)\<lparr>tv_text := []\<rparr>,
       focus := FileContent\<rparr>"

definition startSearch :: "appState \<Rightarrow> appState" where
  "startSearch state =
     state\<lparr>searchMode := True, searchString := [],
       debugView := (debugView state)\<lparr>tv_text := ''Search: ''\<rparr>,
       focus := DebugView\<rparr>"

text \<open>
  \<open>initializeApp\<close> (lines 211 to 231): every field it does not set has Go's zero value.
  Running the application gives the focus to the root layout, whose focused item is the
  file list.
\<close>

definition initializeApp :: appState where
  "initializeApp =
     \<lparr>focus = FileList, fileList = [],
      fileContent = \<lparr>tv_text = [], tv_highlight = [], tv_scroll = (0, 0),
                      tv_title = ''Content''\<rparr>,
      debugView = \<lparr>tv_text = ''Press F1, ?, or h for help. Press q to quit.'',
                    tv_highlight = [], tv_scroll = (0, 0), tv_title = []\<rparr>,
      actionFuncs = [], isFileListFocused = True, scrollOffset = 0, activeFileIndex = 0,
      layoutHorizontal = True, secondFileVisible = False, searchString = [],
      searchResults = [], currentSearchIndex = 0, searchMode = False,
      errorLogger = [], infoLogger = []\<rparr>"

text \<open>
  \<open>highlightCurrentResult\<close>: the element read at line 547 is a panic when the index is
  outside the slice.
\<close>

definition highlightCurrentResult :: "appState \<Rightarrow> panic + appState" where
  "highlightCurrentResult state =
     (if length (searchResults state) = 0 then Inr state
      else if 0 \<le> currentSearchIndex state
              \<and> currentSearchIndex state < int (length (searchResults state)) then
        (let result = searchResults state ! nat (currentSearchIndex state) in
         Inr (state\<lparr>fileContent := (fileContent state)
                \<lparr>tv_highlight := Itoa (fst result), tv_scroll := (snd result, fst result)\<rparr>\<rparr>))
      else Inl IndexOutOfRange)"

text \<open>
  Go's \<open>%\<close> truncates towards zero: \<open>smod\<close>. The divisor is the length the guard above
  it has found non-zero.
\<close>

definition result_message :: "appState \<Rightarrow> string" where
  "result_message state =
     ''Result '' @ Itoa (currentSearchIndex state + 1) @ '' of ''
       @ Itoa (int (length (searchResults state)))"

definition findNextResult :: "appState \<Rightarrow> panic + appState" where
  "findNextResult state =
     (if length (searchResults state) = 0 then Inr state
      else
        (case highlightCurrentResult
                (state\<lparr>currentSearchIndex :=
                   (currentSearchIndex state + 1) smod int (length (searchResults state))\<rparr>) of
           Inl e \<Rightarrow> Inl e
         | Inr state' \<Rightarrow>
             Inr (state'\<lparr>debugView := (debugView state')\<lparr>tv_text := result_message state'\<rparr>\<rparr>)))"

definition findPreviousResult :: "appState \<Rightarrow> panic + appState" where
  "findPreviousResult state =
     (if length (searchResults state) = 0 then Inr state
      else
        (case highlightCurrentResult
                (state\<lparr>currentSearchIndex :=
                   (currentSearchIndex state - 1 + int (length (searchResults state)))
                     smod int (length (searchResults state))\<rparr>) of
           Inl e \<Rightarrow> Inl e
         | Inr state' \<Rightarrow>
             Inr (state'\<lparr>debugView := (debugView state')\<lparr>tv_text := result_message state'\<rparr>\<rparr>)))"

text \<open>
  The inner loop of \<open>appState.performSearch\<close> (lines 561 to 567) on one line; \<open>index\<close> is
  the loop variable and \<open>searchStr\<close> is \<open>state.searchString\<close>. Like the loop of the
  offset-based search it has no bound of its own.
\<close>

partial_function (option) find_in_line ::
  "string \<Rightarrow> string \<Rightarrow> int \<Rightarrow> int \<Rightarrow> (int \<times> int) list \<Rightarrow>
     (panic + (int \<times> int) list) option" where
  "find_in_line line searchStr i index results =
     (if index \<noteq> - 1 then
        (case slice_from line (index + int (length searchStr)) of
           Inl e \<Rightarrow> Some (Inl e)
         | Inr rest \<Rightarrow>
             find_in_line line searchStr i
               (if Index rest searchStr \<noteq> - 1
                then Index rest searchStr + int (length searchStr)
                else Index rest searchStr)
               (results @ [(i, index)]))
      else Some (Inr results))"

declare find_in_line.simps [code]

text \<open>The outer loop (line 559): the lines in order, \<open>i\<close> counting them.\<close>

fun search_lines ::
  "string list \<Rightarrow> string \<Rightarrow> int \<Rightarrow> (int \<times> int) list \<Rightarrow> (panic + (int \<times> int) list) option"
  where
  "search_lines [] searchStr i results = Some (Inr results)"
| "search_lines (line # lines) searchStr i results =
     (case find_in_line line searchStr i (Index line searchStr) results of
        None \<Rightarrow> None
      | Some (Inl e) \<Rightarrow> Some (Inl e)
      | Some (Inr results') \<Rightarrow> search_lines lines searchStr (i + 1) results')"

text \<open>
  \<open>appState.performSearch\<close> (lines 552 to 576). \<open>GetText\<close> stands for
  \<open>fileContent.GetText(true)\<close> of the tview package, which returns the text without its
  tags.
\<close>

definition found_message :: "(int \<times> int) list \<Rightarrow> string" where
  "found_message results =
     ''Found '' @ Itoa (int (length results)) @ '' occurrences. Result 1 of ''
       @ Itoa (int (length results)) @ ''. Press 'n' for next, 'N' for previous.''"

definition appState_performSearch ::
  "(TextView \<Rightarrow> string) \<Rightarrow> appState \<Rightarrow> (panic + appState) option" where
  "appState_performSearch GetText state =
     (if searchString state = [] then Some (Inr state)
      else
        (case search_lines (Split (GetText (fileContent state))) (searchString state) 0 [] of
           None \<Rightarrow> None
         | Some (Inl e) \<Rightarrow> Some (Inl e)
         | Some (Inr results) \<Rightarrow>
             (if length results > 0 then
                (case highlightCurrentResult
                        (state\<lparr>searchResults := results, currentSearchIndex := 0\<rparr>) of
                   Inl e \<Rightarrow> Some (Inl e)
                 | Inr state' \<Rightarrow>
                     Some (Inr (state'\<lparr>debugView := (debugView state')
                                  \<lparr>tv_text := found_message results\<rparr>\<rparr>)))
              else
                Some (Inr (state\<lparr>searchResults := results, currentSearchIndex := 0,
                   debugView := (debugView state)
                     \<lparr>tv_text := ''[red]No results found for: '' @ searchString state
                                 @ ''[-]''\<rparr>\<rparr>)))))"



section \<open>Reloading the file list\<close>

text \<open>
  \<open>filepath.Walk\<close> calls the function of lines 279 to 292 once for every entry it visits.
  A visit is what that call receives: the path, \<open>info.Name()\<close>, \<open>info.IsDir()\<close>, the
  error \<open>Walk\<close> passes, and \<open>ctx.Err()\<close> when the context is done at that moment.
  \<open>Walk\<close> returns the first error the function returns.
\<close>

record visit =
  v_path :: string
  v_name :: string
  v_isDir :: bool
  v_err :: "string option"
  v_ctx_done :: "string option"

fun walk_visits :: "visit list \<Rightarrow> string list \<Rightarrow> string + string list" where
  "walk_visits [] files = Inr files"
| "walk_visits (v # vs) files =
     (case v_ctx_done v of
        Some e \<Rightarrow> Inl e
      | None \<Rightarrow>
          (case v_err v of
             Some e \<Rightarrow> Inl (''error accessing path '' @ v_path v @ '': '' @ e)
           | None \<Rightarrow>
               walk_visits vs
                 (if \<not> v_isDir v \<and> Ext (v_name v) = ''.json'' then files @ [v_path v]
                  else files)))"

definition loadJSONFilesWithContext :: "visit list \<Rightarrow> string \<Rightarrow> string + string list" where
  "loadJSONFilesWithContext visits dir =
     (case walk_visits visits [] of
        Inl err \<Rightarrow> Inl (''error walking directory '' @ dir @ '': '' @ err)
      | Inr files \<Rightarrow> Inr files)"

text \<open>The loop of lines 391 to 419: one list item and one action per file.\<close>

fun populate :: "string list \<Rightarrow> int \<Rightarrow> appState \<Rightarrow> appState" where
  "populate [] i state = state"
| "populate (file # files) i state =
     populate files (i + 1)
       (state\<lparr>fileList := fileList state @ [(file, OpenFile file i)],
          actionFuncs := actionFuncs state @ [OpenFile file i]\<rparr>)"

text \<open>
  \<open>reloadJSONFiles\<close> (lines 379 to 423). Both callers pass the widgets and fields of the one
  \<open>appState\<close>.
\<close>

definition reloadJSONFiles :: "visit list \<Rightarrow> string \<Rightarrow> appState \<Rightarrow> appState" where
  "reloadJSONFiles visits dir state =
     (case loadJSONFilesWithContext visits dir of
        Inl err \<Rightarrow>
          state\<lparr>fileList := [], actionFuncs := [],
            errorLogger := errorLogger state @ [''Failed to load JSON files: '' @ err],
            debugView := (debugView state)
              \<lparr>tv_text := ''[red]Failed to load JSON files. Check error log for details.[-]''\<rparr>\<rparr>
      | Inr jsonFiles \<Rightarrow>
          (let state' = populate jsonFiles 0 (state\<lparr>fileList := [], actionFuncs := []\<rparr>) in
           state'\<lparr>infoLogger := infoLogger state' @ [''JSON files loaded successfully''],
             debugView := (debugView state')
               \<lparr>tv_text := ''Select a file to view its content.''\<rparr>\<rparr>))"

section \<open>The colorizer\<close>

text \<open>
  The package \<open>regexp\<close> is not part of the repository. Its expressions are written here
  as values of a datatype whose constructors are the operators of \<open>regexp/syntax\<close>, and
  matching is the leftmost-first matching the package documents: of the matches that
  start earliest, the one a backtracking search finds first. Text is matched byte by
  byte; on valid UTF-8, which \<open>json.MarshalIndent\<close> writes, that is matching rune by rune
  for the expressions of this program, whose literals are ASCII.
\<close>

datatype cclass = Is char | IsNot char | Space | Digit | OneOf string | AnyCharNotNL

datatype regex =
    OpEmptyMatch
  | OpCharClass cclass
  | OpWordBoundary
  | OpConcat regex regex
  | OpAlternate regex regex
  | OpStar regex
  | OpStarLazy regex
  | OpCapture nat regex

text \<open>
  \<open>\s\<close> is tab, newline, form feed, carriage return and space; \<open>\d\<close> is an ASCII digit;
  \<open>.\<close> is any character but newline; \<open>\b\<close> is between an ASCII word character and
  something else.
\<close>

fun in_class :: "cclass \<Rightarrow> char \<Rightarrow> bool" where
  "in_class (Is c) x = (x = c)"
| "in_class (IsNot c) x = (x \<noteq> c)"
| "in_class Space x = (x \<in> set [CHR 0x09, CHR 0x0A, CHR 0x0C, CHR 0x0D, CHR 0x20])"
| "in_class Digit x = (x \<in> set ''0123456789'')"
| "in_class (OneOf cs) x = (x \<in> set cs)"
| "in_class AnyCharNotNL x = (x \<noteq> CHR 0x0A)"

definition is_word :: "char option \<Rightarrow> bool" where
  "is_word c =
     (case c of
        None \<Rightarrow> False
      | Some x \<Rightarrow>
          x \<in> set ''0123456789abcdefghijklmnopqrstuvwxyzABCDEFGHIJKLMNOPQRSTUVWXYZ_'')"

definition next_char :: "string \<Rightarrow> char option" where
  "next_char s = (case s of [] \<Rightarrow> None | x # xs \<Rightarrow> Some x)"

text \<open>
  A submatch is kept as the text that was left when the group began and when it ended.
  \<open>rmatch r prev s caps\<close> lists every way \<open>r\<close> matches a prefix of \<open>s\<close>, the preferred
  way first; \<open>prev\<close> is the character before \<open>s\<close>. Each way is the last character
  matched, the text left, and the submatches. A greedy star prefers one more round, a
  lazy one prefers to stop; a round that matches nothing is not repeated.
\<close>

type_synonym captures = "(nat \<times> string \<times> string) list"

function rmatch ::
  "regex \<Rightarrow> char option \<Rightarrow> string \<Rightarrow> captures \<Rightarrow> (char option \<times> string \<times> captures) list"
  where
  "rmatch OpEmptyMatch prev s caps = [(prev, s, caps)]"
| "rmatch (OpCharClass cl) prev s caps =
     (case s of [] \<Rightarrow> [] | x # xs \<Rightarrow> if in_class cl x then [(Some x, xs, caps)] else [])"
| "rmatch OpWordBoundary prev s caps =
     (if is_word prev \<noteq> is_word (next_char s) then [(prev, s, caps)] else [])"
| "rmatch (OpConcat a b) prev s caps =
     concat (map (\<lambda>(prev', s', caps'). rmatch b prev' s' caps') (rmatch a prev s caps))"
| "rmatch (OpAlternate a b) prev s caps = rmatch a prev s caps @ rmatch b prev s caps"
| "rmatch (OpStar a) prev s caps =
     concat (map (\<lambda>(prev', s', caps').
                    if length s' < length s then rmatch (OpStar a) prev' s' caps' else [])
               (rmatch a prev s caps))
     @ [(prev, s, caps)]"
| "rmatch (OpStarLazy a) prev s caps =
     (prev, s, caps) #
     concat (map (\<lambda>(prev', s', caps').
                    if length s' < length s then rmatch (OpStarLazy a) prev' s' caps' else [])
               (rmatch a prev s caps))"
| "rmatch (OpCapture n a) prev s caps =
     map (\<lambda>(prev', s', caps'). (prev', s', (n, s, s') # caps')) (rmatch a prev s caps)"
  by pat_completeness auto
termination
  by (relation "inv_image (less_than <*lex*> less_than)
                  (\<lambda>(r, prev, s, caps). (size r, length s))") auto

text \<open>\<open>x+\<close> is \<open>xx*\<close>, \<open>x?\<close> is \<open>x\<close> or nothing, in this order of preference.\<close>

definition OpPlus :: "regex \<Rightarrow> regex" where
  "OpPlus r = OpConcat r (OpStar r)"

definition OpQuest :: "regex \<Rightarrow> regex" where
  "OpQuest r = OpAlternate r OpEmptyMatch"

definition concat_of :: "regex list \<Rightarrow> regex" where
  "concat_of rs = foldr OpConcat rs OpEmptyMatch"

definition literal :: "string \<Rightarrow> regex" where
  "literal s = concat_of (map (\<lambda>c. OpCharClass (Is c)) s)"

text \<open>The slice expression \<open>s[i:j]\<close>.\<close>

definition slice :: "string \<Rightarrow> int \<Rightarrow> int \<Rightarrow> panic + string" where
  "slice s i j =
     (if 0 \<le> i \<and> i \<le> j \<and> j \<le> int (length s) then Inr (take (nat (j - i)) (drop (nat i) s))
      else Inl SliceBoundsOutOfRange)"

text \<open>A panic ends the computation; otherwise the next step runs on the value.\<close>

definition then_do :: "panic + 'a \<Rightarrow> ('a \<Rightarrow> panic + 'b) \<Rightarrow> panic + 'b" where
  "then_do r f = (case r of Inl e \<Rightarrow> Inl e | Inr x \<Rightarrow> f x)"

text \<open>
  The loop of \<open>ReplaceAllString\<close> and \<open>ReplaceAllStringFunc\<close>: at each place of \<open>src\<close>,
  from left to right, the preferred match there is replaced and the search goes on after
  it; where nothing matches, the character is copied. An empty match is replaced too,
  unless it stands right after the match before it, and the character after it is copied.
\<close>

function replaceAll ::
  "regex \<Rightarrow> (string \<Rightarrow> captures \<Rightarrow> panic + string) \<Rightarrow> char option \<Rightarrow> bool \<Rightarrow> string \<Rightarrow>
     panic + string" where
  "replaceAll re repl prev afterMatch src =
     (case rmatch re prev src [] of
        (prev', rest, caps) # others \<Rightarrow>
          if length rest < length src then
            then_do (repl (take (length src - length rest) src) caps) (\<lambda>out.
            then_do (replaceAll re repl prev' True rest) (\<lambda>more. Inr (out @ more)))
          else
            then_do (if afterMatch then Inr [] else repl [] caps) (\<lambda>out.
              case src of
                [] \<Rightarrow> Inr out
              | c # cs \<Rightarrow>
                  then_do (replaceAll re repl (Some c) False cs) (\<lambda>more. Inr (out @ c # more)))
      | [] \<Rightarrow>
          (case src of
             [] \<Rightarrow> Inr []
           | c # cs \<Rightarrow> then_do (replaceAll re repl (Some c) False cs) (\<lambda>more. Inr (c # more))))"
  by pat_completeness auto
termination
  by (relation "measure (\<lambda>(re, repl, prev, afterMatch, src). length src)") auto

text \<open>
  A replacement template, as \<open>Expand\<close> reads it: literal text and \<open>$n\<close>. A group that took
  no part in the match expands to nothing.
\<close>

datatype template_part = Literal string | Submatch nat

fun expand :: "template_part list \<Rightarrow> captures \<Rightarrow> string" where
  "expand [] caps = []"
| "expand (Literal t # ps) caps = t @ expand ps caps"
| "expand (Submatch n # ps) caps =
     (case map_of caps n of
        None \<Rightarrow> []
      | Some (s, s') \<Rightarrow> take (length s - length s') s) @ expand ps caps"

definition ReplaceAllString :: "regex \<Rightarrow> string \<Rightarrow> template_part list \<Rightarrow> panic + string" where
  "ReplaceAllString re src template =
     replaceAll re (\<lambda>m caps. Inr (expand template caps)) None False src"

definition ReplaceAllStringFunc ::
  "regex \<Rightarrow> string \<Rightarrow> (string \<Rightarrow> panic + string) \<Rightarrow> panic + string" where
  "ReplaceAllStringFunc re src repl = replaceAll re (\<lambda>m caps. repl m) None False src"

text \<open>
  The expressions of lines 24 to 30. \<open>number n\<close> is
  \<open>[-+]?\d*\.?\d+([eE][-+]?\d+)?\<close> with its group numbered \<open>n\<close>.
\<close>

definition number :: "nat \<Rightarrow> regex" where
  "number n =
     concat_of [OpQuest (OpCharClass (OneOf ''-+'')), OpStar (OpCharClass Digit),
       OpQuest (OpCharClass (Is CHR ''.'')), OpPlus (OpCharClass Digit),
       OpQuest (OpCapture n (concat_of [OpCharClass (OneOf ''eE''),
         OpQuest (OpCharClass (OneOf ''-+'')), OpPlus (OpCharClass Digit)]))]"

definition keyRegex :: regex where
  "keyRegex =
     concat_of [OpCharClass (Is CHR 0x22), OpCapture 1 (OpPlus (OpCharClass (IsNot CHR 0x22))),
       OpCharClass (Is CHR 0x22), OpCharClass (Is CHR '':''), OpStar (OpCharClass Space)]"

definition stringRegex :: regex where
  "stringRegex =
     concat_of [OpCharClass (Is CHR '':''), OpStar (OpCharClass Space),
       OpCharClass (Is CHR 0x22), OpCapture 1 (OpStarLazy (OpCharClass (IsNot CHR 0x22))),
       OpCharClass (Is CHR 0x22)]"

definition arrayStringRegex :: regex where
  "arrayStringRegex =
     concat_of [OpCharClass (Is CHR ''[''), OpStar (OpCharClass Space),
       OpCharClass (Is CHR 0x22), OpCapture 1 (OpStarLazy (OpCharClass (IsNot CHR 0x22))),
       OpCharClass (Is CHR 0x22), OpStar (OpCharClass Space),
       OpStar (OpCapture 2 (concat_of [OpCharClass (Is CHR '',''), OpStar (OpCharClass Space),
         OpCharClass (Is CHR 0x22), OpCapture 3 (OpStarLazy (OpCharClass (IsNot CHR 0x22))),
         OpCharClass (Is CHR 0x22), OpStar (OpCharClass Space)])),
       OpCharClass (Is CHR '']'')]"

definition numberRegex :: regex where
  "numberRegex =
     concat_of [OpCharClass (Is CHR '':''), OpStar (OpCharClass Space), OpCapture 1 (number 2),
       OpStar (OpCharClass Space), OpCharClass (OneOf '',}'')]"

definition arrayNumberRegex :: regex where
  "arrayNumberRegex =
     concat_of [OpCharClass (Is CHR ''[''), OpStar (OpCharClass Space), OpCapture 1 (number 2),
       OpStar (concat_of [OpStar (OpCharClass Space), OpCharClass (Is CHR '',''),
         OpStar (OpCharClass Space), number 3]),
       OpStar (OpCharClass Space), OpCharClass (Is CHR '']'')]"

definition booleanRegex :: regex where
  "booleanRegex =
     concat_of [OpWordBoundary, OpCapture 1 (OpAlternate (literal ''true'') (literal ''false'')),
       OpWordBoundary]"

definition nullRegex :: regex where
  "nullRegex =
     concat_of [OpCharClass (Is CHR '':''), OpStar (OpCharClass Space),
       OpCapture 1 (literal ''null'')]"

text \<open>
  The two expressions compiled inside the passes: \<open>"(.*?)"\<close> at line 115 and \<open>(\d+)\<close> at
  line 126.
\<close>

definition quotedRegex :: regex where
  "quotedRegex =
     concat_of [OpCharClass (Is CHR 0x22), OpCapture 1 (OpStarLazy (OpCharClass AnyCharNotNL)),
       OpCharClass (Is CHR 0x22)]"

definition digitsRegex :: regex where
  "digitsRegex = OpCapture 1 (OpPlus (OpCharClass Digit))"

text \<open>The color codes of lines 92 to 99.\<close>

definition keyColor :: string where "keyColor = ''[blue]''"
definition stringColor :: string where "stringColor = ''[lightgreen]''"
definition arrayStringColor :: string where "arrayStringColor = ''[green]''"
definition numberColor :: string where "numberColor = ''[yellow]''"
definition arrayNumberColor :: string where "arrayNumberColor = ''[yellow]''"
definition booleanColor :: string where "booleanColor = ''[lightblue]''"
definition nullColor :: string where "nullColor = ''[red]''"
definition resetColor :: string where "resetColor = ''[-]''"

text \<open>
  The seven passes of \<open>colorizeJSON\<close> (lines 102 to 139), in the order of the source. The
  template of the first is \<open>keyColor + "\"$1\"" + resetColor + ": "\<close>.
\<close>

definition color_keys :: "string \<Rightarrow> panic + string" where
  "color_keys input =
     ReplaceAllString keyRegex input
       [Literal keyColor, Literal [CHR 0x22], Submatch 1, Literal [CHR 0x22],
        Literal resetColor, Literal '': '']"

definition color_strings :: "string \<Rightarrow> panic + string" where
  "color_strings input =
     ReplaceAllStringFunc stringRegex input (\<lambda>s.
       then_do (slice s 0 2) (\<lambda>colonIndex.
       then_do (slice s 2 (int (length s) - 1)) (\<lambda>inner.
       then_do (slice_from s (int (length s) - 1)) (\<lambda>final.
       Inr (colonIndex @ stringColor @ inner @ resetColor @ final)))))"

definition color_array_strings :: "string \<Rightarrow> panic + string" where
  "color_array_strings input =
     ReplaceAllStringFunc arrayStringRegex input (\<lambda>s.
       ReplaceAllString quotedRegex s
         [Literal arrayStringColor, Literal [CHR 0x22], Submatch 1, Literal [CHR 0x22],
          Literal resetColor])"

definition color_numbers :: "string \<Rightarrow> panic + string" where
  "color_numbers input =
     ReplaceAllStringFunc numberRegex input (\<lambda>s.
       then_do (slice s 0 2) (\<lambda>colon.
       then_do (slice_from s 2) (\<lambda>after.
       Inr (colon @ numberColor @ after @ resetColor))))"

definition color_array_numbers :: "string \<Rightarrow> panic + string" where
  "color_array_numbers input =
     ReplaceAllStringFunc arrayNumberRegex input (\<lambda>s.
       ReplaceAllStringFunc digitsRegex s (\<lambda>num.
         Inr (arrayNumberColor @ num @ resetColor)))"

definition color_booleans :: "string \<Rightarrow> panic + string" where
  "color_booleans input =
     ReplaceAllStringFunc booleanRegex input (\<lambda>s. Inr (booleanColor @ s @ resetColor))"

definition color_nulls :: "string \<Rightarrow> panic + string" where
  "color_nulls input =
     ReplaceAllStringFunc nullRegex input (\<lambda>s.
       then_do (slice s 0 2) (\<lambda>colon.
       then_do (slice_from s 2) (\<lambda>after.
       Inr (colon @ nullColor @ after @ resetColor))))"

definition colorizeJSON :: "string \<Rightarrow> panic + string" where
  "colorizeJSON input =
     then_do (color_keys input) (\<lambda>input.
     then_do (color_strings input) (\<lambda>input.
     then_do (color_array_strings input) (\<lambda>input.
     then_do (color_numbers input) (\<lambda>input.
     then_do (color_array_numbers input) (\<lambda>input.
     then_do (color_booleans input) color_nulls)))))"

text \<open>
  The visible text of a marked-up string, in the words of the specification: the string
  without its directive tokens. Scanning from the left, each of the color codes above is
  dropped where it stands.
\<close>

definition directives :: "string list" where
  "directives =
     [keyColor, stringColor, arrayStringColor, numberColor, arrayNumberColor, booleanColor,
      nullColor, resetColor]"

fun strip_from :: "nat \<Rightarrow> string \<Rightarrow> string" where
  "strip_from n [] = []"
| "strip_from n (c # cs) =
     (if 0 < n then strip_from (n - 1) cs
      else
        (case find (\<lambda>d. prefix d (c # cs)) directives of
           Some d \<Rightarrow> strip_from (length d - 1) cs
         | None \<Rightarrow> c # strip_from 0 cs))"

definition strip_directives :: "string \<Rightarrow> string" where
  "strip_directives s = strip_from 0 s"

section \<open>Properties of the string functions\<close>

lemma Index_range:
  "Index s q = - 1 \<or> (0 \<le> Index s q \<and> Index s q + int (length q) \<le> int (length s))"
proof (induction s)
  case Nil
  then show ?case by simp
next
  case (Cons c cs)
  then show ?case by (auto simp: Let_def dest: prefix_length_le)
qed

lemma Index_Nil: "Index s [] = 0"
  by (cases s) simp_all

lemma Index_step:
  assumes "\<not> prefix q (c # cs)" and "Index (c # cs) q \<noteq> - 1"
  shows "Index cs q \<noteq> - 1" and "0 \<le> Index cs q"
    and "nat (Index (c # cs) q) = Suc (nat (Index cs q))"
proof -
  show ne: "Index cs q \<noteq> - 1"
    using assms by (simp add: Let_def split: if_splits)
  show nn: "0 \<le> Index cs q"
    using Index_range[of cs q] ne by auto
  have "Index (c # cs) q = Index cs q + 1"
    using assms(1) ne by (simp add: Let_def)
  then show "nat (Index (c # cs) q) = Suc (nat (Index cs q))"
    using nn by simp
qed

lemma Index_found: "Index s q \<noteq> - 1 \<Longrightarrow> prefix q (drop (nat (Index s q)) s)"
proof (induction s)
  case Nil
  then show ?case by (simp split: if_splits)
next
  case (Cons c cs)
  show ?case
  proof (cases "prefix q (c # cs)")
    case True
    then show ?thesis by simp
  next
    case False
    from Index_step[OF False Cons.prems] Cons.IH show ?thesis by simp
  qed
qed

lemma Index_first: "Index s q \<noteq> - 1 \<Longrightarrow> j < nat (Index s q) \<Longrightarrow> \<not> prefix q (drop j s)"
proof (induction s arbitrary: j)
  case Nil
  then show ?case by (simp split: if_splits)
next
  case (Cons c cs)
  show ?case
  proof (cases "prefix q (c # cs)")
    case True
    with Cons.prems show ?thesis by simp
  next
    case False
    note st = Index_step[OF False Cons.prems(1)]
    show ?thesis
    proof (cases j)
      case 0
      then show ?thesis using False by simp
    next
      case (Suc k)
      then have "k < nat (Index cs q)" using Cons.prems(2) st(3) by simp
      from Cons.IH[OF st(1) this] show ?thesis using Suc by simp
    qed
  qed
qed

lemma Index_none: "Index s q = - 1 \<Longrightarrow> \<not> prefix q (drop j s)"
proof (induction s arbitrary: j)
  case Nil
  then show ?case by (simp split: if_splits)
next
  case (Cons c cs)
  from Cons.prems have np: "\<not> prefix q (c # cs)" and e: "Index cs q = - 1"
    using Index_range[of cs q] by (auto simp: Let_def split: if_splits)
  show ?case
  proof (cases j)
    case 0
    then show ?thesis using np by simp
  next
    case (Suc k)
    then show ?thesis using Cons.IH[OF e] by simp
  qed
qed

lemma smod_nonneg: "0 \<le> (k::int) \<Longrightarrow> 0 < l \<Longrightarrow> k smod l = k mod l"
  by (simp add: smod_int_alt_def sgn_if)

section \<open>The literal loop of the offset-based search\<close>

text \<open>
  With a non-empty search string the loop returns, without a panic, the greedy
  left-to-right occurrences from \<open>pos\<close> on: each returned offset is an occurrence, the
  next one starts after the end of the one before, and an occurrence that is not
  returned overlaps a returned one that starts before it.
\<close>

lemma literal_loop_result:
  assumes q: "q \<noteq> []"
  shows "0 \<le> pos \<Longrightarrow> pos \<le> int (length c) \<Longrightarrow>
    \<exists>ps. literal_loop c q pos acc = Some (Inr (acc @ ps)) \<and>
      (\<forall>p\<in>set ps. pos \<le> p \<and> prefix q (drop (nat p) c)) \<and>
      sorted_wrt (\<lambda>a b. a + int (length q) \<le> b) ps \<and>
      (\<forall>j. nat pos \<le> j \<longrightarrow> prefix q (drop j c) \<longrightarrow>
           (\<exists>p\<in>set ps. p \<le> int j \<and> int j < p + int (length q)))"
proof (induction "length c - nat pos" arbitrary: pos acc rule: less_induct)
  case less
  define rest where "rest = drop (nat pos) c"
  have sl: "slice_from c pos = Inr rest"
    using less.prems by (simp add: slice_from_def rest_def)
  show ?case
  proof (cases "Index rest q = - 1")
    case True
    have run: "literal_loop c q pos acc = Some (Inr (acc @ []))"
      by (subst literal_loop.simps) (simp add: sl True)
    have none: "\<not> prefix q (drop j c)" if "nat pos \<le> j" for j
    proof -
      have "drop j c = drop (j - nat pos) rest" using that by (simp add: rest_def)
      then show ?thesis using Index_none[OF True] by simp
    qed
    show ?thesis using run none by (intro exI[of _ "[]"]) simp
  next
    case False
    define i where "i = Index rest q"
    have i0: "0 \<le> i" and ile: "i + int (length q) \<le> int (length rest)"
      using Index_range[of rest q] False by (auto simp: i_def)
    have lrest: "int (length rest) = int (length c) - pos"
      using less.prems by (simp add: rest_def)
    define pos' where "pos' = pos + i + int (length q)"
    have qpos: "0 < int (length q)" using q by simp
    have p'1: "0 \<le> pos'" and p'2: "pos' \<le> int (length c)" and p'3: "pos < pos'"
      using less.prems i0 ile lrest qpos unfolding pos'_def by linarith+
    have meas: "length c - nat pos' < length c - nat pos"
      using p'1 p'2 p'3 less.prems by linarith
    from less.hyps[OF meas p'1 p'2, of "acc @ [pos + i]"]
    obtain ps where ps: "literal_loop c q pos' (acc @ [pos + i]) = Some (Inr ((acc @ [pos + i]) @ ps))"
      and occ: "\<forall>p\<in>set ps. pos' \<le> p \<and> prefix q (drop (nat p) c)"
      and srt: "sorted_wrt (\<lambda>a b. a + int (length q) \<le> b) ps"
      and cov: "\<forall>j. nat pos' \<le> j \<longrightarrow> prefix q (drop j c) \<longrightarrow>
           (\<exists>p\<in>set ps. p \<le> int j \<and> int j < p + int (length q))"
      by blast
    have run: "literal_loop c q pos acc = Some (Inr (acc @ ((pos + i) # ps)))"
      using False ps by (subst literal_loop.simps) (simp add: sl i_def pos'_def)
    have here: "prefix q (drop (nat (pos + i)) c)"
    proof -
      have "nat (pos + i) = nat i + nat pos" using i0 less.prems by simp
      then have "drop (nat (pos + i)) c = drop (nat i) rest" by (simp add: rest_def)
      then show ?thesis using Index_found[OF False] by (simp add: i_def)
    qed
    have occ': "\<forall>p\<in>set ((pos + i) # ps). pos \<le> p \<and> prefix q (drop (nat p) c)"
      using occ here i0 p'3 by auto
    have srt': "sorted_wrt (\<lambda>a b. a + int (length q) \<le> b) ((pos + i) # ps)"
      using srt occ by (auto simp: pos'_def)
    have cov': "\<exists>p\<in>set ((pos + i) # ps). p \<le> int j \<and> int j < p + int (length q)"
      if j: "nat pos \<le> j" and pj: "prefix q (drop j c)" for j
    proof (cases "int j < pos + i")
      case True
      have "j - nat pos < nat (Index rest q)"
        using True j less.prems i0 unfolding i_def by linarith
      from Index_first[OF False this] have "\<not> prefix q (drop (j - nat pos) rest)" .
      moreover have "drop (j - nat pos) rest = drop j c" using j by (simp add: rest_def)
      ultimately show ?thesis using pj by simp
    next
      case a: False
      show ?thesis
      proof (cases "int j < pos'")
        case True
        then show ?thesis using a by (auto simp: pos'_def)
      next
        case False
        then have "nat pos' \<le> j" by linarith
        with cov pj show ?thesis by auto
      qed
    qed
    show ?thesis using run occ' srt' cov' by blast
  qed
qed

text \<open>With the empty search string every round finds it at offset 0 and stays where it is.\<close>

lemma literal_loop_empty_aux:
  assumes "literal_loop c q pos acc = Some y"
  shows "\<not> (q = [] \<and> 0 \<le> pos \<and> pos \<le> int (length c))"
  by (rule literal_loop.raw_induct[where P = "\<lambda>c q pos acc y. \<not> (q = [] \<and> 0 \<le> pos \<and> pos \<le> int (length c))", OF _ assms])
     (auto simp: slice_from_def Index_Nil)

lemma literal_loop_empty:
  "0 \<le> pos \<Longrightarrow> pos \<le> int (length c) \<Longrightarrow> literal_loop c [] pos acc = None"
  using literal_loop_empty_aux[of c "[]" pos acc] by (cases "literal_loop c [] pos acc") auto

section \<open>The offset-based search\<close>

text \<open>
  Claim C6, as the code has it. With \<open>useRegex\<close> false, \<open>caseSensitive\<close> true and a
  non-empty search string, \<open>performSearch\<close> returns the start offsets of the non-overlapping
  occurrences found from left to right: every returned offset is an occurrence, each
  starts at or after the end of the one before, and every occurrence of the content starts
  inside a returned one that begins at or before it. Searching \<open>"a"\<close> in \<open>"aXaYa"\<close>
  returns \<open>[0, 2, 4]\<close>.
\<close>

theorem performSearch_literal_offsets:
  "(caseSensitive options \<and> \<not> useRegex options \<and> query \<noteq> [] \<longrightarrow>
     (\<exists>positions.
        performSearch lib logger content query options = Some (Inr (positions, logger)) \<and>
        (\<forall>p\<in>set positions. 0 \<le> p \<and> prefix query (drop (nat p) content)) \<and>
        sorted_wrt (\<lambda>a b. a + int (length query) \<le> b) positions \<and>
        (\<forall>j. prefix query (drop j content) \<longrightarrow>
           (\<exists>p\<in>set positions. p \<le> int j \<and> int j < p + int (length query))))) \<and>
   performSearch lib logger ''aXaYa'' ''a'' \<lparr>caseSensitive = True, useRegex = False\<rparr>
     = Some (Inr ([0, 2, 4], logger))"
proof (intro conjI impI)
  assume a: "caseSensitive options \<and> \<not> useRegex options \<and> query \<noteq> []"
  then have q: "query \<noteq> []" by simp
  from literal_loop_result[OF q, of 0 content "[]"]
  obtain ps where ps: "literal_loop content query 0 [] = Some (Inr ps)"
    and occ: "\<forall>p\<in>set ps. 0 \<le> p \<and> prefix query (drop (nat p) content)"
    and srt: "sorted_wrt (\<lambda>a b. a + int (length query) \<le> b) ps"
    and cov: "\<forall>j. prefix query (drop j content) \<longrightarrow>
           (\<exists>p\<in>set ps. p \<le> int j \<and> int j < p + int (length query))"
    by auto
  have "performSearch lib logger content query options = Some (Inr (ps, logger))"
    using a ps by (simp add: performSearch_def)
  with occ srt cov show "\<exists>positions.
        performSearch lib logger content query options = Some (Inr (positions, logger)) \<and>
        (\<forall>p\<in>set positions. 0 \<le> p \<and> prefix query (drop (nat p) content)) \<and>
        sorted_wrt (\<lambda>a b. a + int (length query) \<le> b) positions \<and>
        (\<forall>j. prefix query (drop j content) \<longrightarrow>
           (\<exists>p\<in>set positions. p \<le> int j \<and> int j < p + int (length query)))"
    by blast
next
  have "literal_loop ''aXaYa'' ''a'' 0 [] = Some (Inr [0, 2, 4])"
    by code_simp
  then show "performSearch lib logger ''aXaYa'' ''a'' \<lparr>caseSensitive = True, useRegex = False\<rparr>
     = Some (Inr ([0, 2, 4], logger))"
    by (simp add: performSearch_def)
qed

theorem performSearch_literal_offsets_witness:
  "performSearch \<lparr>regexp_Compile = (\<lambda>p. Inl ''no regexp''),
       regexp_FindAllStringIndex = (\<lambda>(re::unit) s. []), strings_ToLower = id\<rparr>
     [] ''abcabcbc'' ''bc'' \<lparr>caseSensitive = True, useRegex = False\<rparr> = Some (Inr ([1, 4, 6], []))
   \<and> (\<exists>positions.
        performSearch \<lparr>regexp_Compile = (\<lambda>p. Inl ''no regexp''),
            regexp_FindAllStringIndex = (\<lambda>(re::unit) s. []), strings_ToLower = id\<rparr>
          [] ''abcabcbc'' ''bc'' \<lparr>caseSensitive = True, useRegex = False\<rparr> = Some (Inr (positions, [])) \<and>
        (\<forall>j. prefix ''bc'' (drop j ''abcabcbc'') \<longrightarrow>
           (\<exists>p\<in>set positions. p \<le> int j \<and> int j < p + int (length ''bc''))))"
proof -
  have e: "literal_loop ''abcabcbc'' ''bc'' 0 [] = Some (Inr [1, 4, 6])"
    by code_simp
  have 1: "performSearch \<lparr>regexp_Compile = (\<lambda>p. Inl ''no regexp''),
       regexp_FindAllStringIndex = (\<lambda>(re::unit) s. []), strings_ToLower = id\<rparr>
     [] ''abcabcbc'' ''bc'' \<lparr>caseSensitive = True, useRegex = False\<rparr> = Some (Inr ([1, 4, 6], []))"
    using e by (simp add: performSearch_def)
  show ?thesis
    using 1 performSearch_literal_offsets[of "\<lparr>caseSensitive = True, useRegex = False\<rparr>" "''bc''"
      "\<lparr>regexp_Compile = (\<lambda>p. Inl ''no regexp''),
       regexp_FindAllStringIndex = (\<lambda>(re::unit) s. []), strings_ToLower = id\<rparr>" "[]" "''abcabcbc''"]
    by simp
qed

text \<open>
  Against claim C6 as stated, which names no condition on the search string: with the
  empty search string the same call on \<open>"aXaYa"\<close> returns nothing, the loop never ends.
\<close>

theorem performSearch_empty_query_counterexample:
  "performSearch \<lparr>regexp_Compile = (\<lambda>p. Inl ''no regexp''),
       regexp_FindAllStringIndex = (\<lambda>(re::unit) s. []), strings_ToLower = id\<rparr>
     [] ''aXaYa'' [] \<lparr>caseSensitive = True, useRegex = False\<rparr> = None"
proof -
  have "literal_loop ''aXaYa'' [] 0 [] = None"
    by (rule literal_loop_empty) simp_all
  then show ?thesis by (simp add: performSearch_def)
qed

text \<open>
  Claim C9. With \<open>useRegex\<close> false and a non-empty search string the loop of
  \<open>performSearch\<close> ends and the offsets it returns are strictly increasing; with the empty
  search string it never ends. \<open>strings.ToLower\<close> is taken to return the empty string for
  the empty string only.
\<close>

theorem performSearch_literal_terminates:
  "\<not> useRegex options \<and> (\<forall>s. (strings_ToLower lib s = []) = (s = [])) \<longrightarrow>
     (query \<noteq> [] \<longrightarrow>
        (\<exists>positions.
           performSearch lib logger content query options = Some (Inr (positions, logger)) \<and>
           sorted_wrt (<) positions)) \<and>
     performSearch lib logger content [] options = None"
proof (intro impI conjI)
  assume a: "\<not> useRegex options \<and> (\<forall>s. (strings_ToLower lib s = []) = (s = []))"
  define c where "c = (if \<not> caseSensitive options then strings_ToLower lib content else content)"
  {
    assume q: "query \<noteq> []"
    define q' where "q' = (if \<not> caseSensitive options then strings_ToLower lib query else query)"
    have q': "q' \<noteq> []" using a q by (simp add: q'_def)
    from literal_loop_result[OF q', of 0 c "[]"]
    obtain ps where ps: "literal_loop c q' 0 [] = Some (Inr ps)"
      and srt: "sorted_wrt (\<lambda>a b. a + int (length q') \<le> b) ps"
      by auto
    have "0 < int (length q')" using q' by simp
    then have "\<And>x y. x + int (length q') \<le> y \<Longrightarrow> x < y" by linarith
    then have "sorted_wrt (<) ps"
      using sorted_wrt_mono_rel[of ps "\<lambda>a b. a + int (length q') \<le> b" "(<)"] srt by blast
    moreover have "performSearch lib logger content query options = Some (Inr (ps, logger))"
      using a ps by (simp add: performSearch_def c_def q'_def)
    ultimately show "\<exists>positions.
           performSearch lib logger content query options = Some (Inr (positions, logger)) \<and>
           sorted_wrt (<) positions" by blast
  }
  have e: "(if \<not> caseSensitive options then strings_ToLower lib [] else []) = []"
    using a by simp
  have "literal_loop c [] 0 [] = None" by (rule literal_loop_empty) simp_all
  then show "performSearch lib logger content [] options = None"
    using a e by (simp add: performSearch_def c_def)
qed

theorem performSearch_literal_terminates_witness:
  "(\<forall>s. (map (\<lambda>c. if c = CHR ''A'' then CHR ''a'' else c) s = []) = (s = [])) \<and>
   performSearch \<lparr>regexp_Compile = (\<lambda>p. Inl ''no regexp''),
       regexp_FindAllStringIndex = (\<lambda>(re::unit) s. []),
       strings_ToLower = map (\<lambda>c. if c = CHR ''A'' then CHR ''a'' else c)\<rparr>
     [] ''bAnana'' ''an'' \<lparr>caseSensitive = False, useRegex = False\<rparr> = Some (Inr ([1, 3], [])) \<and>
   sorted_wrt (<) [1, 3 :: int] \<and>
   performSearch \<lparr>regexp_Compile = (\<lambda>p. Inl ''no regexp''),
       regexp_FindAllStringIndex = (\<lambda>(re::unit) s. []),
       strings_ToLower = map (\<lambda>c. if c = CHR ''A'' then CHR ''a'' else c)\<rparr>
     [] ''bAnana'' [] \<lparr>caseSensitive = False, useRegex = False\<rparr> = None"
proof -
  have e: "literal_loop ''banana'' ''an'' 0 [] = Some (Inr [1, 3])"
    by code_simp
  have 1: "performSearch \<lparr>regexp_Compile = (\<lambda>p. Inl ''no regexp''),
       regexp_FindAllStringIndex = (\<lambda>(re::unit) s. []),
       strings_ToLower = map (\<lambda>c. if c = CHR ''A'' then CHR ''a'' else c)\<rparr>
     [] ''bAnana'' ''an'' \<lparr>caseSensitive = False, useRegex = False\<rparr> = Some (Inr ([1, 3], []))"
    using e by (simp add: performSearch_def)
  show ?thesis
    using 1 performSearch_literal_terminates[of "\<lparr>caseSensitive = False, useRegex = False\<rparr>"
      "\<lparr>regexp_Compile = (\<lambda>p. Inl ''no regexp''),
       regexp_FindAllStringIndex = (\<lambda>(re::unit) s. []),
       strings_ToLower = map (\<lambda>c. if c = CHR ''A'' then CHR ''a'' else c)\<rparr>" "''an''" "[]" "''bAnana''"]
    by simp
qed

text \<open>
  Claim C7. With \<open>useRegex\<close> true, when the pattern handed to \<open>regexp.Compile\<close> does not
  compile, \<open>performSearch\<close> returns the empty sequence and writes the error to the error
  logger; it ends without a panic.
\<close>

theorem performSearch_invalid_regex:
  "useRegex options \<and>
   regexp_Compile lib (if caseSensitive options then query else ''(?i)'' @ query) = Inl err
   \<longrightarrow> performSearch lib logger content query options
         = Some (Inr ([], logger @ [''Invalid regex pattern: '' @ err]))"
  by (simp add: performSearch_def)

theorem performSearch_invalid_regex_witness:
  "regexp_Compile
      \<lparr>regexp_Compile = (\<lambda>p. if p = ''a('' then Inl ''missing closing )'' else Inr p),
       regexp_FindAllStringIndex = (\<lambda>re s. []), strings_ToLower = id\<rparr> ''a(''
     = Inl ''missing closing )'' \<and>
   performSearch
      \<lparr>regexp_Compile = (\<lambda>p. if p = ''a('' then Inl ''missing closing )'' else Inr p),
       regexp_FindAllStringIndex = (\<lambda>re s. []), strings_ToLower = id\<rparr>
      [''earlier line''] ''xa(y'' ''a('' \<lparr>caseSensitive = True, useRegex = True\<rparr>
     = Some (Inr ([], [''earlier line'', ''Invalid regex pattern: missing closing )'']))"
  using performSearch_invalid_regex[of "\<lparr>caseSensitive = True, useRegex = True\<rparr>"
      "\<lparr>regexp_Compile = (\<lambda>p. if p = ''a('' then Inl ''missing closing )'' else Inr p),
       regexp_FindAllStringIndex = (\<lambda>re s. []), strings_ToLower = id\<rparr>"
      "''a(''" "''missing closing )''" "[''earlier line'']" "''xa(y''"]
  by simp

section \<open>The search state\<close>

text \<open>
  Claim C5, as the code has it. \<open>startSearch\<close> empties the search string and enters search
  mode; it leaves the stored results and the current index as they were. It is
  \<open>cancelSearch\<close> that empties the results.
\<close>

theorem startSearch_clears_query_only:
  "searchString (startSearch state) = [] \<and> searchMode (startSearch state) \<and>
   searchResults (startSearch state) = searchResults state \<and>
   currentSearchIndex (startSearch state) = currentSearchIndex state \<and>
   searchResults (cancelSearch state) = [] \<and> searchString (cancelSearch state) = []"
  by (simp add: startSearch_def cancelSearch_def)

text \<open>
  Against claim C5 as stated: after \<open>startSearch\<close> on a state that holds two results, the
  two results are still stored.
\<close>

theorem startSearch_results_counterexample:
  "startSearch (initializeApp\<lparr>searchString := ''a'', searchResults := [(0, 0), (2, 1)],
       currentSearchIndex := 1\<rparr>)
   = initializeApp\<lparr>searchString := [], searchResults := [(0, 0), (2, 1)],
       currentSearchIndex := 1, searchMode := True,
       debugView := (debugView initializeApp)\<lparr>tv_text := ''Search: ''\<rparr>, focus := DebugView\<rparr>
   \<and> searchResults (startSearch (initializeApp\<lparr>searchString := ''a'',
         searchResults := [(0, 0), (2, 1)], currentSearchIndex := 1\<rparr>)) \<noteq> []"
  by (simp add: startSearch_def initializeApp_def)

lemma findNext_step:
  assumes "searchResults state \<noteq> []" "0 \<le> currentSearchIndex state"
    "currentSearchIndex state < int (length (searchResults state))"
  shows "\<exists>s'. findNextResult state = Inr s' \<and> searchResults s' = searchResults state \<and>
     currentSearchIndex s' = (currentSearchIndex state + 1) mod int (length (searchResults state))"
proof -
  let ?L = "int (length (searchResults state))"
  have L: "0 < ?L" using assms by simp
  have m: "(currentSearchIndex state + 1) smod ?L = (currentSearchIndex state + 1) mod ?L"
    using assms L by (intro smod_nonneg) auto
  have b: "0 \<le> (currentSearchIndex state + 1) mod ?L" "(currentSearchIndex state + 1) mod ?L < ?L"
    using L by auto
  show ?thesis using assms(1) b
    by (simp add: findNextResult_def highlightCurrentResult_def m Let_def)
qed

lemma findPrevious_step:
  assumes "searchResults state \<noteq> []" "0 \<le> currentSearchIndex state"
    "currentSearchIndex state < int (length (searchResults state))"
  shows "\<exists>s'. findPreviousResult state = Inr s' \<and> searchResults s' = searchResults state \<and>
     currentSearchIndex s' = (currentSearchIndex state - 1 + int (length (searchResults state)))
        mod int (length (searchResults state))"
proof -
  let ?L = "int (length (searchResults state))"
  have L: "0 < ?L" using assms by simp
  have m: "(currentSearchIndex state - 1 + ?L) smod ?L = (currentSearchIndex state - 1 + ?L) mod ?L"
    using assms L by (intro smod_nonneg) auto
  have b: "0 \<le> (currentSearchIndex state - 1 + ?L) mod ?L" "(currentSearchIndex state - 1 + ?L) mod ?L < ?L"
    using L by auto
  show ?thesis using assms(1) b
    by (simp add: findPreviousResult_def highlightCurrentResult_def m Let_def)
qed

text \<open>
  Claim C8. On \<open>L\<close> results with the current index \<open>i\<close>, \<open>0 \<le> i < L\<close>,
  \<open>findNextResult\<close> sets the index to \<open>(i + 1) mod L\<close> (from \<open>L - 1\<close> to 0) and
  \<open>findPreviousResult\<close> sets it to \<open>(i - 1 + L) mod L\<close> (from 0 to \<open>L - 1\<close>); with no
  result both return the state unchanged, without a panic.
\<close>

theorem navigation_wraps:
  "(searchResults state \<noteq> [] \<and> 0 \<le> currentSearchIndex state \<and>
      currentSearchIndex state < int (length (searchResults state)) \<longrightarrow>
      (\<exists>s'. findNextResult state = Inr s' \<and> searchResults s' = searchResults state \<and>
         currentSearchIndex s'
           = (currentSearchIndex state + 1) mod int (length (searchResults state)) \<and>
         (currentSearchIndex state = int (length (searchResults state)) - 1
            \<longrightarrow> currentSearchIndex s' = 0)) \<and>
      (\<exists>s'. findPreviousResult state = Inr s' \<and> searchResults s' = searchResults state \<and>
         currentSearchIndex s'
           = (currentSearchIndex state - 1 + int (length (searchResults state)))
               mod int (length (searchResults state)) \<and>
         (currentSearchIndex state = 0
            \<longrightarrow> currentSearchIndex s' = int (length (searchResults state)) - 1))) \<and>
   (searchResults state = [] \<longrightarrow>
      findNextResult state = Inr state \<and> findPreviousResult state = Inr state)"
proof (intro conjI impI)
  assume a: "searchResults state \<noteq> [] \<and> 0 \<le> currentSearchIndex state \<and>
      currentSearchIndex state < int (length (searchResults state))"
  let ?L = "int (length (searchResults state))"
  have L: "0 < ?L" using a by simp
  from a findNext_step[of state] obtain s1 where s1: "findNextResult state = Inr s1"
    "searchResults s1 = searchResults state"
    "currentSearchIndex s1 = (currentSearchIndex state + 1) mod ?L" by blast
  have "currentSearchIndex state = ?L - 1 \<longrightarrow> currentSearchIndex s1 = 0"
    using s1(3) by simp
  with s1 show "\<exists>s'. findNextResult state = Inr s' \<and> searchResults s' = searchResults state \<and>
         currentSearchIndex s' = (currentSearchIndex state + 1) mod ?L \<and>
         (currentSearchIndex state = ?L - 1 \<longrightarrow> currentSearchIndex s' = 0)" by blast
  from a findPrevious_step[of state] obtain s2 where s2: "findPreviousResult state = Inr s2"
    "searchResults s2 = searchResults state"
    "currentSearchIndex s2 = (currentSearchIndex state - 1 + ?L) mod ?L" by blast
  have "currentSearchIndex state = 0 \<longrightarrow> currentSearchIndex s2 = ?L - 1"
    using s2(3) L by (simp add: zmod_minus1)
  with s2 show "\<exists>s'. findPreviousResult state = Inr s' \<and> searchResults s' = searchResults state \<and>
         currentSearchIndex s' = (currentSearchIndex state - 1 + ?L) mod ?L \<and>
         (currentSearchIndex state = 0 \<longrightarrow> currentSearchIndex s' = ?L - 1)" by blast
next
  assume "searchResults state = []"
  then show "findNextResult state = Inr state" by (simp add: findNextResult_def)
next
  assume "searchResults state = []"
  then show "findPreviousResult state = Inr state" by (simp add: findPreviousResult_def)
qed

theorem navigation_wraps_witness:
  "searchResults (initializeApp\<lparr>searchResults := [(0, 0), (0, 2), (1, 1)]\<rparr>) \<noteq> [] \<and>
   (\<exists>s'. findPreviousResult (initializeApp\<lparr>searchResults := [(0, 0), (0, 2), (1, 1)]\<rparr>) = Inr s'
       \<and> currentSearchIndex s' = 2) \<and>
   (\<exists>s'. findNextResult (initializeApp\<lparr>searchResults := [(0, 0), (0, 2), (1, 1)]\<rparr>) = Inr s'
       \<and> currentSearchIndex s' = 1) \<and>
   (\<exists>s'. findNextResult (initializeApp\<lparr>searchResults := [(0, 0), (0, 2), (1, 1)],
              currentSearchIndex := 2\<rparr>) = Inr s'
       \<and> currentSearchIndex s' = 0) \<and>
   findNextResult initializeApp = Inr initializeApp \<and>
   findPreviousResult initializeApp = Inr initializeApp"
proof -
  let ?A = "initializeApp\<lparr>searchResults := [(0, 0), (0, 2), (1, 1)]\<rparr>"
  let ?B = "initializeApp\<lparr>searchResults := [(0, 0), (0, 2), (1, 1)], currentSearchIndex := 2\<rparr>"
  have a: "searchResults ?A \<noteq> [] \<and> 0 \<le> currentSearchIndex ?A \<and>
      currentSearchIndex ?A < int (length (searchResults ?A))"
    by (simp add: initializeApp_def)
  have b: "searchResults ?B \<noteq> [] \<and> 0 \<le> currentSearchIndex ?B \<and>
      currentSearchIndex ?B < int (length (searchResults ?B))"
    by (simp add: initializeApp_def)
  have ia: "currentSearchIndex ?A = 0" and la: "int (length (searchResults ?A)) = 3"
    and ib: "currentSearchIndex ?B = 2" and lb: "int (length (searchResults ?B)) = 3"
    by (simp_all add: initializeApp_def)
  from navigation_wraps[of ?A] a obtain s1 s2 where
    "findNextResult ?A = Inr s1" "currentSearchIndex s1 = (currentSearchIndex ?A + 1) mod int (length (searchResults ?A))"
    "findPreviousResult ?A = Inr s2" "currentSearchIndex ?A = 0 \<longrightarrow> currentSearchIndex s2 = int (length (searchResults ?A)) - 1"
    by blast
  then have A: "\<exists>s'. findPreviousResult ?A = Inr s' \<and> currentSearchIndex s' = 2"
    "\<exists>s'. findNextResult ?A = Inr s' \<and> currentSearchIndex s' = 1"
    unfolding ia la by simp_all
  from navigation_wraps[of ?B] b obtain s3 where
    "findNextResult ?B = Inr s3" "currentSearchIndex ?B = int (length (searchResults ?B)) - 1 \<longrightarrow> currentSearchIndex s3 = 0"
    by blast
  then have B: "\<exists>s'. findNextResult ?B = Inr s' \<and> currentSearchIndex s' = 0"
    unfolding ib lb by simp
  have e: "searchResults initializeApp = []" by (simp add: initializeApp_def)
  from navigation_wraps[of initializeApp] e
  have E: "findNextResult initializeApp = Inr initializeApp"
    "findPreviousResult initializeApp = Inr initializeApp" by blast+
  from a A B E show ?thesis by blast
qed

section \<open>The line-oriented search\<close>











lemma find_in_line_aaa_aux:
  assumes "find_in_line line s i index results = Some y"
  shows "\<not> (line = ''aaa'' \<and> s = ''a'' \<and> index = 1)"
  by (rule find_in_line.raw_induct[where P = "\<lambda>line s i index results y.
        \<not> (line = ''aaa'' \<and> s = ''a'' \<and> index = 1)", OF _ assms])
     (fastforce simp: slice_from_def)

lemma find_in_line_aaa: "find_in_line ''aaa'' ''a'' i 1 results = None"
  using find_in_line_aaa_aux[of "''aaa''" "''a''" i 1 results]
  by (cases "find_in_line ''aaa'' ''a'' i 1 results") auto

text \<open>
  Claim C2, at the content \<open>"aaa"\<close> with the search string \<open>"a"\<close>: the offset of line 563
  is counted from the slice, not from the line, so the loop finds the second \<open>a\<close> again
  and again and \<open>appState.performSearch\<close> never returns. On the line \<open>"Xabab"\<close> with
  \<open>"ab"\<close> it returns the columns 1 and 2, where the occurrences are at columns 1 and 3.
\<close>

theorem appState_performSearch_diverges:
  "appState_performSearch tv_text
      (initializeApp\<lparr>fileContent := (fileContent initializeApp)\<lparr>tv_text := ''aaa''\<rparr>,
         searchString := ''a''\<rparr>) = None \<and>
   search_lines (Split ''Xabab'') ''ab'' 0 [] = Some (Inr [(0, 1), (0, 2)])"
proof
  have "find_in_line ''aaa'' ''a'' 0 (Index ''aaa'' ''a'') [] = None"
    by (subst find_in_line.simps) (simp add: slice_from_def find_in_line_aaa)
  then have "search_lines (Split ''aaa'') ''a'' 0 [] = None"
    by (simp add: Split_def)
  then show "appState_performSearch tv_text
      (initializeApp\<lparr>fileContent := (fileContent initializeApp)\<lparr>tv_text := ''aaa''\<rparr>,
         searchString := ''a''\<rparr>) = None"
    by (simp add: appState_performSearch_def)
  show "search_lines (Split ''Xabab'') ''ab'' 0 [] = Some (Inr [(0, 1), (0, 2)])"
    by code_simp
qed

section \<open>Reloading after a failed walk\<close>

text \<open>
  Claim C3, as the code has it. When the walk fails, \<open>reloadJSONFiles\<close> writes the error
  to the error logger and shows the failure in the debug view; the file list and the
  action functions are empty, as they were cleared before the walk, and every other part
  of the state is unchanged.
\<close>

theorem reloadJSONFiles_error_clears_list:
  "loadJSONFilesWithContext visits dir = Inl err \<longrightarrow>
     reloadJSONFiles visits dir state
       = state\<lparr>fileList := [], actionFuncs := [],
           errorLogger := errorLogger state @ [''Failed to load JSON files: '' @ err],
           debugView := (debugView state)
             \<lparr>tv_text := ''[red]Failed to load JSON files. Check error log for details.[-]''\<rparr>\<rparr>"
  by (simp add: reloadJSONFiles_def)

theorem reloadJSONFiles_error_clears_list_witness:
  "loadJSONFilesWithContext
       [\<lparr>v_path = ''.'', v_name = ''.'', v_isDir = True, v_err = None, v_ctx_done = None\<rparr>,
        \<lparr>v_path = ''a.json'', v_name = ''a.json'', v_isDir = False, v_err = None,
          v_ctx_done = None\<rparr>,
        \<lparr>v_path = ''b.json'', v_name = ''b.json'', v_isDir = False, v_err = None,
          v_ctx_done = Some ''context deadline exceeded''\<rparr>] ''.''
     = Inl ''error walking directory .: context deadline exceeded'' \<and>
   reloadJSONFiles
       [\<lparr>v_path = ''.'', v_name = ''.'', v_isDir = True, v_err = None, v_ctx_done = None\<rparr>,
        \<lparr>v_path = ''a.json'', v_name = ''a.json'', v_isDir = False, v_err = None,
          v_ctx_done = None\<rparr>,
        \<lparr>v_path = ''b.json'', v_name = ''b.json'', v_isDir = False, v_err = None,
          v_ctx_done = Some ''context deadline exceeded''\<rparr>] ''.''
       (initializeApp\<lparr>fileList := [(''old.json'', OpenFile ''old.json'' 0)],
          actionFuncs := [OpenFile ''old.json'' 0]\<rparr>)
     = initializeApp\<lparr>fileList := [], actionFuncs := [],
         errorLogger := [''Failed to load JSON files: error walking directory .: context deadline exceeded''],
         debugView := (debugView initializeApp)
           \<lparr>tv_text := ''[red]Failed to load JSON files. Check error log for details.[-]''\<rparr>\<rparr>"
proof -
  let ?V = "[\<lparr>v_path = ''.'', v_name = ''.'', v_isDir = True, v_err = None, v_ctx_done = None\<rparr>,
        \<lparr>v_path = ''a.json'', v_name = ''a.json'', v_isDir = False, v_err = None,
          v_ctx_done = None\<rparr>,
        \<lparr>v_path = ''b.json'', v_name = ''b.json'', v_isDir = False, v_err = None,
          v_ctx_done = Some ''context deadline exceeded''\<rparr>]"
  have l: "loadJSONFilesWithContext ?V ''.''
     = Inl ''error walking directory .: context deadline exceeded''"
    by (simp add: loadJSONFilesWithContext_def)
  from reloadJSONFiles_error_clears_list[of ?V "''.''" "''error walking directory .: context deadline exceeded''"
      "initializeApp\<lparr>fileList := [(''old.json'', OpenFile ''old.json'' 0)],
          actionFuncs := [OpenFile ''old.json'' 0]\<rparr>"] l
  show ?thesis by (simp add: initializeApp_def)
qed

text \<open>
  Against claim C3 as stated: a first walk lists \<open>a.json\<close>; a reload whose context is done
  at the first visit leaves the file list empty.
\<close>

theorem reloadJSONFiles_error_counterexample:
  "fileList (reloadJSONFiles
       [\<lparr>v_path = ''.'', v_name = ''.'', v_isDir = True, v_err = None, v_ctx_done = None\<rparr>,
        \<lparr>v_path = ''a.json'', v_name = ''a.json'', v_isDir = False, v_err = None,
          v_ctx_done = None\<rparr>] ''.'' initializeApp)
     = [(''a.json'', OpenFile ''a.json'' 0)] \<and>
   loadJSONFilesWithContext
       [\<lparr>v_path = ''.'', v_name = ''.'', v_isDir = True, v_err = None,
          v_ctx_done = Some ''context deadline exceeded''\<rparr>] ''.''
     = Inl ''error walking directory .: context deadline exceeded'' \<and>
   fileList (reloadJSONFiles
       [\<lparr>v_path = ''.'', v_name = ''.'', v_isDir = True, v_err = None,
          v_ctx_done = Some ''context deadline exceeded''\<rparr>] ''.''
       (reloadJSONFiles
          [\<lparr>v_path = ''.'', v_name = ''.'', v_isDir = True, v_err = None, v_ctx_done = None\<rparr>,
           \<lparr>v_path = ''a.json'', v_name = ''a.json'', v_isDir = False, v_err = None,
             v_ctx_done = None\<rparr>] ''.'' initializeApp))
     = []"
  by (simp add: reloadJSONFiles_def loadJSONFilesWithContext_def Ext_def initializeApp_def)

section \<open>The colorizer on the object of the specification\<close>

text \<open>
  The seven passes, one after the other, on the object
  \<open>{"a": "b", "n": 1, "t": true, "z": null, "arr": ["x","y"], "nums":[1,2,3]}\<close> indented
  by two spaces: first with its keys sorted, as \<open>json.MarshalIndent\<close> writes the decoded
  map, then with its keys in the order written.
\<close>

lemma object_color_keys:
  \<open>color_keys
     ''{\<newline>  "a": "b",\<newline>  "arr": [\<newline>    "x",\<newline>    "y"\<newline>  ],\<newline>  "n": 1,\<newline>  "nums": [\<newline>    1,\<newline>    2,\<newline>    3\<newline>  ],\<newline>  "t": true,\<newline>  "z": null\<newline>}''
   = Inr
     ''{\<newline>  [blue]"a"[-]: "b",\<newline>  [blue]"arr"[-]: [\<newline>    "x",\<newline>    "y"\<newline>  ],\<newline>  [blue]"n"[-]: 1,\<newline>  [blue]"nums"[-]: [\<newline>    1,\<newline>    2,\<newline>    3\<newline>  ],\<newline>  [blue]"t"[-]: true,\<newline>  [blue]"z"[-]: null\<newline>}''\<close>
  by code_simp

lemma object_color_strings:
  \<open>color_strings
     ''{\<newline>  [blue]"a"[-]: "b",\<newline>  [blue]"arr"[-]: [\<newline>    "x",\<newline>    "y"\<newline>  ],\<newline>  [blue]"n"[-]: 1,\<newline>  [blue]"nums"[-]: [\<newline>    1,\<newline>    2,\<newline>    3\<newline>  ],\<newline>  [blue]"t"[-]: true,\<newline>  [blue]"z"[-]: null\<newline>}''
   = Inr
     ''{\<newline>  [blue]"a"[-]: [lightgreen]"b[-]",\<newline>  [blue]"arr"[-]: [\<newline>    "x",\<newline>    "y"\<newline>  ],\<newline>  [blue]"n"[-]: 1,\<newline>  [blue]"nums"[-]: [\<newline>    1,\<newline>    2,\<newline>    3\<newline>  ],\<newline>  [blue]"t"[-]: true,\<newline>  [blue]"z"[-]: null\<newline>}''\<close>
  by code_simp

lemma object_color_array_strings:
  \<open>color_array_strings
     ''{\<newline>  [blue]"a"[-]: [lightgreen]"b[-]",\<newline>  [blue]"arr"[-]: [\<newline>    "x",\<newline>    "y"\<newline>  ],\<newline>  [blue]"n"[-]: 1,\<newline>  [blue]"nums"[-]: [\<newline>    1,\<newline>    2,\<newline>    3\<newline>  ],\<newline>  [blue]"t"[-]: true,\<newline>  [blue]"z"[-]: null\<newline>}''
   = Inr
     ''{\<newline>  [blue]"a"[-]: [lightgreen]"b[-]",\<newline>  [blue]"arr"[-]: [\<newline>    [green]"x"[-],\<newline>    [green]"y"[-]\<newline>  ],\<newline>  [blue]"n"[-]: 1,\<newline>  [blue]"nums"[-]: [\<newline>    1,\<newline>    2,\<newline>    3\<newline>  ],\<newline>  [blue]"t"[-]: true,\<newline>  [blue]"z"[-]: null\<newline>}''\<close>
  by code_simp

lemma object_color_numbers:
  \<open>color_numbers
     ''{\<newline>  [blue]"a"[-]: [lightgreen]"b[-]",\<newline>  [blue]"arr"[-]: [\<newline>    [green]"x"[-],\<newline>    [green]"y"[-]\<newline>  ],\<newline>  [blue]"n"[-]: 1,\<newline>  [blue]"nums"[-]: [\<newline>    1,\<newline>    2,\<newline>    3\<newline>  ],\<newline>  [blue]"t"[-]: true,\<newline>  [blue]"z"[-]: null\<newline>}''
   = Inr
     ''{\<newline>  [blue]"a"[-]: [lightgreen]"b[-]",\<newline>  [blue]"arr"[-]: [\<newline>    [green]"x"[-],\<newline>    [green]"y"[-]\<newline>  ],\<newline>  [blue]"n"[-]: [yellow]1,[-]\<newline>  [blue]"nums"[-]: [\<newline>    1,\<newline>    2,\<newline>    3\<newline>  ],\<newline>  [blue]"t"[-]: true,\<newline>  [blue]"z"[-]: null\<newline>}''\<close>
  by code_simp

lemma object_color_array_numbers:
  \<open>color_array_numbers
     ''{\<newline>  [blue]"a"[-]: [lightgreen]"b[-]",\<newline>  [blue]"arr"[-]: [\<newline>    [green]"x"[-],\<newline>    [green]"y"[-]\<newline>  ],\<newline>  [blue]"n"[-]: [yellow]1,[-]\<newline>  [blue]"nums"[-]: [\<newline>    1,\<newline>    2,\<newline>    3\<newline>  ],\<newline>  [blue]"t"[-]: true,\<newline>  [blue]"z"[-]: null\<newline>}''
   = Inr
     ''{\<newline>  [blue]"a"[-]: [lightgreen]"b[-]",\<newline>  [blue]"arr"[-]: [\<newline>    [green]"x"[-],\<newline>    [green]"y"[-]\<newline>  ],\<newline>  [blue]"n"[-]: [yellow]1,[-]\<newline>  [blue]"nums"[-]: [\<newline>    [yellow]1[-],\<newline>    [yellow]2[-],\<newline>    [yellow]3[-]\<newline>  ],\<newline>  [blue]"t"[-]: true,\<newline>  [blue]"z"[-]: null\<newline>}''\<close>
  by code_simp

lemma object_color_booleans:
  \<open>color_booleans
     ''{\<newline>  [blue]"a"[-]: [lightgreen]"b[-]",\<newline>  [blue]"arr"[-]: [\<newline>    [green]"x"[-],\<newline>    [green]"y"[-]\<newline>  ],\<newline>  [blue]"n"[-]: [yellow]1,[-]\<newline>  [blue]"nums"[-]: [\<newline>    [yellow]1[-],\<newline>    [yellow]2[-],\<newline>    [yellow]3[-]\<newline>  ],\<newline>  [blue]"t"[-]: true,\<newline>  [blue]"z"[-]: null\<newline>}''
   = Inr
     ''{\<newline>  [blue]"a"[-]: [lightgreen]"b[-]",\<newline>  [blue]"arr"[-]: [\<newline>    [green]"x"[-],\<newline>    [green]"y"[-]\<newline>  ],\<newline>  [blue]"n"[-]: [yellow]1,[-]\<newline>  [blue]"nums"[-]: [\<newline>    [yellow]1[-],\<newline>    [yellow]2[-],\<newline>    [yellow]3[-]\<newline>  ],\<newline>  [blue]"t"[-]: [lightblue]true[-],\<newline>  [blue]"z"[-]: null\<newline>}''\<close>
  by code_simp

lemma object_color_nulls:
  \<open>color_nulls
     ''{\<newline>  [blue]"a"[-]: [lightgreen]"b[-]",\<newline>  [blue]"arr"[-]: [\<newline>    [green]"x"[-],\<newline>    [green]"y"[-]\<newline>  ],\<newline>  [blue]"n"[-]: [yellow]1,[-]\<newline>  [blue]"nums"[-]: [\<newline>    [yellow]1[-],\<newline>    [yellow]2[-],\<newline>    [yellow]3[-]\<newline>  ],\<newline>  [blue]"t"[-]: [lightblue]true[-],\<newline>  [blue]"z"[-]: null\<newline>}''
   = Inr
     ''{\<newline>  [blue]"a"[-]: [lightgreen]"b[-]",\<newline>  [blue]"arr"[-]: [\<newline>    [green]"x"[-],\<newline>    [green]"y"[-]\<newline>  ],\<newline>  [blue]"n"[-]: [yellow]1,[-]\<newline>  [blue]"nums"[-]: [\<newline>    [yellow]1[-],\<newline>    [yellow]2[-],\<newline>    [yellow]3[-]\<newline>  ],\<newline>  [blue]"t"[-]: [lightblue]true[-],\<newline>  [blue]"z"[-]: [red]null[-]\<newline>}''\<close>
  by code_simp

lemma object_as_written_color_keys:
  \<open>color_keys
     ''{\<newline>  "a": "b",\<newline>  "n": 1,\<newline>  "t": true,\<newline>  "z": null,\<newline>  "arr": [\<newline>    "x",\<newline>    "y"\<newline>  ],\<newline>  "nums": [\<newline>    1,\<newline>    2,\<newline>    3\<newline>  ]\<newline>}''
   = Inr
     ''{\<newline>  [blue]"a"[-]: "b",\<newline>  [blue]"n"[-]: 1,\<newline>  [blue]"t"[-]: true,\<newline>  [blue]"z"[-]: null,\<newline>  [blue]"arr"[-]: [\<newline>    "x",\<newline>    "y"\<newline>  ],\<newline>  [blue]"nums"[-]: [\<newline>    1,\<newline>    2,\<newline>    3\<newline>  ]\<newline>}''\<close>
  by code_simp

lemma object_as_written_color_strings:
  \<open>color_strings
     ''{\<newline>  [blue]"a"[-]: "b",\<newline>  [blue]"n"[-]: 1,\<newline>  [blue]"t"[-]: true,\<newline>  [blue]"z"[-]: null,\<newline>  [blue]"arr"[-]: [\<newline>    "x",\<newline>    "y"\<newline>  ],\<newline>  [blue]"nums"[-]: [\<newline>    1,\<newline>    2,\<newline>    3\<newline>  ]\<newline>}''
   = Inr
     ''{\<newline>  [blue]"a"[-]: [lightgreen]"b[-]",\<newline>  [blue]"n"[-]: 1,\<newline>  [blue]"t"[-]: true,\<newline>  [blue]"z"[-]: null,\<newline>  [blue]"arr"[-]: [\<newline>    "x",\<newline>    "y"\<newline>  ],\<newline>  [blue]"nums"[-]: [\<newline>    1,\<newline>    2,\<newline>    3\<newline>  ]\<newline>}''\<close>
  by code_simp

lemma object_as_written_color_array_strings:
  \<open>color_array_strings
     ''{\<newline>  [blue]"a"[-]: [lightgreen]"b[-]",\<newline>  [blue]"n"[-]: 1,\<newline>  [blue]"t"[-]: true,\<newline>  [blue]"z"[-]: null,\<newline>  [blue]"arr"[-]: [\<newline>    "x",\<newline>    "y"\<newline>  ],\<newline>  [blue]"nums"[-]: [\<newline>    1,\<newline>    2,\<newline>    3\<newline>  ]\<newline>}''
   = Inr
     ''{\<newline>  [blue]"a"[-]: [lightgreen]"b[-]",\<newline>  [blue]"n"[-]: 1,\<newline>  [blue]"t"[-]: true,\<newline>  [blue]"z"[-]: null,\<newline>  [blue]"arr"[-]: [\<newline>    [green]"x"[-],\<newline>    [green]"y"[-]\<newline>  ],\<newline>  [blue]"nums"[-]: [\<newline>    1,\<newline>    2,\<newline>    3\<newline>  ]\<newline>}''\<close>
  by code_simp

lemma object_as_written_color_numbers:
  \<open>color_numbers
     ''{\<newline>  [blue]"a"[-]: [lightgreen]"b[-]",\<newline>  [blue]"n"[-]: 1,\<newline>  [blue]"t"[-]: true,\<newline>  [blue]"z"[-]: null,\<newline>  [blue]"arr"[-]: [\<newline>    [green]"x"[-],\<newline>    [green]"y"[-]\<newline>  ],\<newline>  [blue]"nums"[-]: [\<newline>    1,\<newline>    2,\<newline>    3\<newline>  ]\<newline>}''
   = Inr
     ''{\<newline>  [blue]"a"[-]: [lightgreen]"b[-]",\<newline>  [blue]"n"[-]: [yellow]1,[-]\<newline>  [blue]"t"[-]: true,\<newline>  [blue]"z"[-]: null,\<newline>  [blue]"arr"[-]: [\<newline>    [green]"x"[-],\<newline>    [green]"y"[-]\<newline>  ],\<newline>  [blue]"nums"[-]: [\<newline>    1,\<newline>    2,\<newline>    3\<newline>  ]\<newline>}''\<close>
  by code_simp

lemma object_as_written_color_array_numbers:
  \<open>color_array_numbers
     ''{\<newline>  [blue]"a"[-]: [lightgreen]"b[-]",\<newline>  [blue]"n"[-]: [yellow]1,[-]\<newline>  [blue]"t"[-]: true,\<newline>  [blue]"z"[-]: null,\<newline>  [blue]"arr"[-]: [\<newline>    [green]"x"[-],\<newline>    [green]"y"[-]\<newline>  ],\<newline>  [blue]"nums"[-]: [\<newline>    1,\<newline>    2,\<newline>    3\<newline>  ]\<newline>}''
   = Inr
     ''{\<newline>  [blue]"a"[-]: [lightgreen]"b[-]",\<newline>  [blue]"n"[-]: [yellow]1,[-]\<newline>  [blue]"t"[-]: true,\<newline>  [blue]"z"[-]: null,\<newline>  [blue]"arr"[-]: [\<newline>    [green]"x"[-],\<newline>    [green]"y"[-]\<newline>  ],\<newline>  [blue]"nums"[-]: [\<newline>    [yellow]1[-],\<newline>    [yellow]2[-],\<newline>    [yellow]3[-]\<newline>  ]\<newline>}''\<close>
  by code_simp

lemma object_as_written_color_booleans:
  \<open>color_booleans
     ''{\<newline>  [blue]"a"[-]: [lightgreen]"b[-]",\<newline>  [blue]"n"[-]: [yellow]1,[-]\<newline>  [blue]"t"[-]: true,\<newline>  [blue]"z"[-]: null,\<newline>  [blue]"arr"[-]: [\<newline>    [green]"x"[-],\<newline>    [green]"y"[-]\<newline>  ],\<newline>  [blue]"nums"[-]: [\<newline>    [yellow]1[-],\<newline>    [yellow]2[-],\<newline>    [yellow]3[-]\<newline>  ]\<newline>}''
   = Inr
     ''{\<newline>  [blue]"a"[-]: [lightgreen]"b[-]",\<newline>  [blue]"n"[-]: [yellow]1,[-]\<newline>  [blue]"t"[-]: [lightblue]true[-],\<newline>  [blue]"z"[-]: null,\<newline>  [blue]"arr"[-]: [\<newline>    [green]"x"[-],\<newline>    [green]"y"[-]\<newline>  ],\<newline>  [blue]"nums"[-]: [\<newline>    [yellow]1[-],\<newline>    [yellow]2[-],\<newline>    [yellow]3[-]\<newline>  ]\<newline>}''\<close>
  by code_simp

lemma object_as_written_color_nulls:
  \<open>color_nulls
     ''{\<newline>  [blue]"a"[-]: [lightgreen]"b[-]",\<newline>  [blue]"n"[-]: [yellow]1,[-]\<newline>  [blue]"t"[-]: [lightblue]true[-],\<newline>  [blue]"z"[-]: null,\<newline>  [blue]"arr"[-]: [\<newline>    [green]"x"[-],\<newline>    [green]"y"[-]\<newline>  ],\<newline>  [blue]"nums"[-]: [\<newline>    [yellow]1[-],\<newline>    [yellow]2[-],\<newline>    [yellow]3[-]\<newline>  ]\<newline>}''
   = Inr
     ''{\<newline>  [blue]"a"[-]: [lightgreen]"b[-]",\<newline>  [blue]"n"[-]: [yellow]1,[-]\<newline>  [blue]"t"[-]: [lightblue]true[-],\<newline>  [blue]"z"[-]: [red]null[-],\<newline>  [blue]"arr"[-]: [\<newline>    [green]"x"[-],\<newline>    [green]"y"[-]\<newline>  ],\<newline>  [blue]"nums"[-]: [\<newline>    [yellow]1[-],\<newline>    [yellow]2[-],\<newline>    [yellow]3[-]\<newline>  ]\<newline>}''\<close>
  by code_simp

text \<open>
  Claim C4, at that object. The six keys are wrapped in the key color, \<open>true\<close> in the
  boolean color, \<open>null\<close> in the null color, \<open>"x"\<close> and \<open>"y"\<close> each in the array-string
  color and \<open>1\<close>, \<open>2\<close>, \<open>3\<close> of the array each in the array-number color. The string
  value is not wrapped as the claim says: the reset code stands before its closing quote,
  \<open>[lightgreen]"b[-]"\<close>. The number value is wrapped together with the comma after it,
  \<open>[yellow]1,[-]\<close>.
\<close>

theorem colorizeJSON_example:
  \<open>colorizeJSON
     ''{\<newline>  "a": "b",\<newline>  "arr": [\<newline>    "x",\<newline>    "y"\<newline>  ],\<newline>  "n": 1,\<newline>  "nums": [\<newline>    1,\<newline>    2,\<newline>    3\<newline>  ],\<newline>  "t": true,\<newline>  "z": null\<newline>}''
   = Inr
     ''{\<newline>  [blue]"a"[-]: [lightgreen]"b[-]",\<newline>  [blue]"arr"[-]: [\<newline>    [green]"x"[-],\<newline>    [green]"y"[-]\<newline>  ],\<newline>  [blue]"n"[-]: [yellow]1,[-]\<newline>  [blue]"nums"[-]: [\<newline>    [yellow]1[-],\<newline>    [yellow]2[-],\<newline>    [yellow]3[-]\<newline>  ],\<newline>  [blue]"t"[-]: [lightblue]true[-],\<newline>  [blue]"z"[-]: [red]null[-]\<newline>}'' \<and>
   colorizeJSON
     ''{\<newline>  "a": "b",\<newline>  "n": 1,\<newline>  "t": true,\<newline>  "z": null,\<newline>  "arr": [\<newline>    "x",\<newline>    "y"\<newline>  ],\<newline>  "nums": [\<newline>    1,\<newline>    2,\<newline>    3\<newline>  ]\<newline>}''
   = Inr
     ''{\<newline>  [blue]"a"[-]: [lightgreen]"b[-]",\<newline>  [blue]"n"[-]: [yellow]1,[-]\<newline>  [blue]"t"[-]: [lightblue]true[-],\<newline>  [blue]"z"[-]: [red]null[-],\<newline>  [blue]"arr"[-]: [\<newline>    [green]"x"[-],\<newline>    [green]"y"[-]\<newline>  ],\<newline>  [blue]"nums"[-]: [\<newline>    [yellow]1[-],\<newline>    [yellow]2[-],\<newline>    [yellow]3[-]\<newline>  ]\<newline>}''\<close>
  by (simp add: colorizeJSON_def then_do_def object_color_keys object_color_strings
        object_color_array_strings object_color_numbers object_color_array_numbers
        object_color_booleans object_color_nulls object_as_written_color_keys
        object_as_written_color_strings object_as_written_color_array_strings
        object_as_written_color_numbers object_as_written_color_array_numbers
        object_as_written_color_booleans object_as_written_color_nulls)

section \<open>The colorizer changes a string that starts with a colon\<close>

text \<open>
  The passes on the object \<open>{"k": ["a", ":b"]}\<close> indented by two spaces. The key
  expression matches from the closing quote of \<open>"a"\<close> to the colon of \<open>":b"\<close>, and its
  template writes a colon and a space.
\<close>

lemma colon_string_color_keys:
  \<open>color_keys
     ''{\<newline>  "k": [\<newline>    "a",\<newline>    ":b"\<newline>  ]\<newline>}''
   = Inr
     ''{\<newline>  [blue]"k"[-]: [\<newline>    "a[blue]",\<newline>    "[-]: b"\<newline>  ]\<newline>}''\<close>
  by code_simp

lemma colon_string_color_strings:
  \<open>color_strings
     ''{\<newline>  [blue]"k"[-]: [\<newline>    "a[blue]",\<newline>    "[-]: b"\<newline>  ]\<newline>}''
   = Inr
     ''{\<newline>  [blue]"k"[-]: [\<newline>    "a[blue]",\<newline>    "[-]: b"\<newline>  ]\<newline>}''\<close>
  by code_simp

lemma colon_string_color_array_strings:
  \<open>color_array_strings
     ''{\<newline>  [blue]"k"[-]: [\<newline>    "a[blue]",\<newline>    "[-]: b"\<newline>  ]\<newline>}''
   = Inr
     ''{\<newline>  [blue]"k"[-]: [\<newline>    [green]"a[blue]"[-],\<newline>    [green]"[-]: b"[-]\<newline>  ]\<newline>}''\<close>
  by code_simp

lemma colon_string_color_numbers:
  \<open>color_numbers
     ''{\<newline>  [blue]"k"[-]: [\<newline>    [green]"a[blue]"[-],\<newline>    [green]"[-]: b"[-]\<newline>  ]\<newline>}''
   = Inr
     ''{\<newline>  [blue]"k"[-]: [\<newline>    [green]"a[blue]"[-],\<newline>    [green]"[-]: b"[-]\<newline>  ]\<newline>}''\<close>
  by code_simp

lemma colon_string_color_array_numbers:
  \<open>color_array_numbers
     ''{\<newline>  [blue]"k"[-]: [\<newline>    [green]"a[blue]"[-],\<newline>    [green]"[-]: b"[-]\<newline>  ]\<newline>}''
   = Inr
     ''{\<newline>  [blue]"k"[-]: [\<newline>    [green]"a[blue]"[-],\<newline>    [green]"[-]: b"[-]\<newline>  ]\<newline>}''\<close>
  by code_simp

lemma colon_string_color_booleans:
  \<open>color_booleans
     ''{\<newline>  [blue]"k"[-]: [\<newline>    [green]"a[blue]"[-],\<newline>    [green]"[-]: b"[-]\<newline>  ]\<newline>}''
   = Inr
     ''{\<newline>  [blue]"k"[-]: [\<newline>    [green]"a[blue]"[-],\<newline>    [green]"[-]: b"[-]\<newline>  ]\<newline>}''\<close>
  by code_simp

lemma colon_string_color_nulls:
  \<open>color_nulls
     ''{\<newline>  [blue]"k"[-]: [\<newline>    [green]"a[blue]"[-],\<newline>    [green]"[-]: b"[-]\<newline>  ]\<newline>}''
   = Inr
     ''{\<newline>  [blue]"k"[-]: [\<newline>    [green]"a[blue]"[-],\<newline>    [green]"[-]: b"[-]\<newline>  ]\<newline>}''\<close>
  by code_simp

lemma colon_string_stripped:
  \<open>strip_directives
     ''{\<newline>  [blue]"k"[-]: [\<newline>    [green]"a[blue]"[-],\<newline>    [green]"[-]: b"[-]\<newline>  ]\<newline>}''
   = ''{\<newline>  "k": [\<newline>    "a",\<newline>    ": b"\<newline>  ]\<newline>}''\<close>
  by code_simp

text \<open>
  Claim C1, at that object: the output without its directive tokens holds the string
  \<open>": b"\<close> where the input holds \<open>":b"\<close>. A space that is not in the input was written
  into the content.
\<close>

theorem colorizeJSON_inserts_space:
  \<open>colorizeJSON
     ''{\<newline>  "k": [\<newline>    "a",\<newline>    ":b"\<newline>  ]\<newline>}''
   = Inr
     ''{\<newline>  [blue]"k"[-]: [\<newline>    [green]"a[blue]"[-],\<newline>    [green]"[-]: b"[-]\<newline>  ]\<newline>}'' \<and>
   strip_directives
     ''{\<newline>  [blue]"k"[-]: [\<newline>    [green]"a[blue]"[-],\<newline>    [green]"[-]: b"[-]\<newline>  ]\<newline>}''
   = ''{\<newline>  "k": [\<newline>    "a",\<newline>    ": b"\<newline>  ]\<newline>}'' \<and>
   strip_directives
     ''{\<newline>  [blue]"k"[-]: [\<newline>    [green]"a[blue]"[-],\<newline>    [green]"[-]: b"[-]\<newline>  ]\<newline>}''
   \<noteq> ''{\<newline>  "k": [\<newline>    "a",\<newline>    ":b"\<newline>  ]\<newline>}''\<close>
  by (simp add: colorizeJSON_def then_do_def colon_string_stripped colon_string_color_keys
        colon_string_color_strings colon_string_color_array_strings
        colon_string_color_numbers colon_string_color_array_numbers
        colon_string_color_booleans colon_string_color_nulls)

end
